theory Spec2Isabelle
  imports Complex_Main "HOL-Library.Word" "HOL-Library.AList"
begin

unbundle bit_operations_syntax

section \<open>Python values used by Media.py\<close>

text \<open>
  A Python \<open>bytes\<close> object is a list of 8-bit characters. The numeric value of a byte
  is \<open>of_char\<close>, and \<open>char_of\<close> builds a byte from a number below 256.
\<close>

type_synonym bytes = string

text \<open>The exceptions that the modelled code can raise.\<close>

datatype error =
    TypeError
  | ValueError
  | IndexError
  | KeyError string
  | AttributeError
  | StructError
  | PyException string
  | Unmodelled

section \<open>The RTP packet codec (class RTP)\<close>

record RTP =
  payload :: bytes
  PT :: int
  seq :: int
  TS :: int
  SSRC :: int
  version :: int
  P :: int
  X :: int
  CC :: int
  M :: int

text \<open>
  \<open>struct\<close> format characters, network byte order: \<open>b\<close> is a signed char,
  \<open>H\<close> an unsigned 16-bit and \<open>L\<close> an unsigned 32-bit integer.
\<close>

definition unpack_b :: "char \<Rightarrow> int" where
  "unpack_b c = (let u = of_char c in if u < 128 then u else u - 256)"

definition unpack_H :: "char \<Rightarrow> char \<Rightarrow> int" where
  "unpack_H a b = of_char a * 256 + of_char b"

definition unpack_L :: "char \<Rightarrow> char \<Rightarrow> char \<Rightarrow> char \<Rightarrow> int" where
  "unpack_L a b c d = ((of_char a * 256 + of_char b) * 256 + of_char c) * 256 + of_char d"

definition pack_H :: "int \<Rightarrow> bytes" where
  "pack_H v = [char_of (v div 256), char_of v]"

definition pack_L :: "int \<Rightarrow> bytes" where
  "pack_L v = [char_of (v div 16777216), char_of (v div 65536), char_of (v div 256), char_of v]"

text \<open>
  \<open>struct.unpack_from('!bbHLL', b)\<close> reads 12 bytes from offset 0 and raises
  \<open>struct.error\<close> on a shorter buffer.
\<close>

definition unpack_from_bbHLL :: "bytes \<Rightarrow> error + (int \<times> int \<times> int \<times> int \<times> int)" where
  "unpack_from_bbHLL b =
     (if length b < 12 then Inl StructError
      else Inr (unpack_b (b ! 0), unpack_b (b ! 1), unpack_H (b ! 2) (b ! 3),
                unpack_L (b ! 4) (b ! 5) (b ! 6) (b ! 7),
                unpack_L (b ! 8) (b ! 9) (b ! 10) (b ! 11)))"

text \<open>
  \<open>RTP.frombytes\<close>. Python's \<open>>>\<close> and \<open>&\<close> on (possibly negative) integers are
  \<open>drop_bit\<close> and \<open>AND\<close> on \<open>int\<close>.
\<close>

definition frombytes :: "bytes \<Rightarrow> error + RTP" where
  "frombytes buf =
     (case unpack_from_bbHLL (take 12 buf @ replicate 12 (CHR 0x00)) of
        Inl e \<Rightarrow> Inl e
      | Inr (h0, h1, seq', TS', SSRC') \<Rightarrow>
          Inr \<lparr> payload = drop 12 buf,
                PT = h1 AND 127,
                seq = seq',
                TS = TS',
                SSRC = SSRC',
                version = drop_bit 6 h0,
                P = drop_bit 5 h0 AND 1,
                X = drop_bit 4 h0 AND 1,
                CC = h0 AND 15,
                M = drop_bit 7 h1 \<rparr>)"

text \<open>
  \<open>RTP.tobytes\<close>. Storing into a \<open>bytearray\<close> raises \<open>ValueError\<close> unless the value
  is in \<open>range(256)\<close>; \<open>struct.pack_into\<close> raises \<open>struct.error\<close> when a value does
  not fit its format.
\<close>

definition tobytes :: "RTP \<Rightarrow> error + bytes" where
  "tobytes p =
     (let hdr0 = push_bit 6 (version p) OR push_bit 5 (P p) OR push_bit 4 (X p) OR CC p;
          hdr1 = push_bit 7 (M p) OR PT p
      in if \<not> (0 \<le> hdr0 \<and> hdr0 < 256) then Inl ValueError
         else if \<not> (0 \<le> hdr1 \<and> hdr1 < 256) then Inl ValueError
         else if \<not> (0 \<le> seq p \<and> seq p < 65536) then Inl StructError
         else if \<not> (0 \<le> TS p \<and> TS p < 4294967296) then Inl StructError
         else if \<not> (0 \<le> SSRC p \<and> SSRC p < 4294967296) then Inl StructError
         else Inr ([char_of hdr0, char_of hdr1] @ pack_H (seq p) @ pack_L (TS p)
                   @ pack_L (SSRC p) @ payload p))"

text \<open>The constructor \<open>RTP(payload, PT, seq, TS, SSRC)\<close> with its default arguments.\<close>

definition RTP_init :: "bytes \<Rightarrow> int \<Rightarrow> int \<Rightarrow> int \<Rightarrow> int \<Rightarrow> RTP" where
  "RTP_init payload' PT' seq' TS' SSRC' =
     \<lparr> payload = payload', PT = PT', seq = seq', TS = TS', SSRC = SSRC',
       version = 2, P = 0, X = 0, CC = 0, M = 0 \<rparr>"

section \<open>Python string helpers\<close>

text \<open>ASCII whitespace, as \<open>bytes.split()\<close> and \<open>bytes.strip()\<close> see it.\<close>

definition is_space :: "char \<Rightarrow> bool" where
  "is_space c = (c = CHR 0x20 \<or> c = CHR 0x09 \<or> c = CHR 0x0A \<or> c = CHR 0x0D
                 \<or> c = CHR 0x0B \<or> c = CHR 0x0C)"

definition startswith :: "bytes \<Rightarrow> bytes \<Rightarrow> bool" where
  "startswith s pre = (take (length pre) s = pre)"

definition endswith :: "bytes \<Rightarrow> bytes \<Rightarrow> bool" where
  "endswith s suf = (length suf \<le> length s \<and> drop (length s - length suf) s = suf)"

definition strip :: "bytes \<Rightarrow> bytes" where
  "strip s = rev (dropWhile is_space (rev (dropWhile is_space s)))"

text \<open>
  \<open>bytes.splitlines()\<close>: lines end at \<open>\n\<close>, \<open>\r\<close> or \<open>\r\n\<close>; the terminators are
  dropped and a trailing terminator opens no further line.
\<close>

fun splitlines_from :: "bytes \<Rightarrow> bytes \<Rightarrow> bytes list" where
  "splitlines_from cur [] = (if cur = [] then [] else [cur])"
| "splitlines_from cur (c # cs) =
     (if c = CHR 0x0A then cur # splitlines_from [] cs
      else if c = CHR 0x0D then
        (case cs of
           [] \<Rightarrow> [cur]
         | d # ds \<Rightarrow> if d = CHR 0x0A then cur # splitlines_from [] ds
                     else cur # splitlines_from [] cs)
      else splitlines_from (cur @ [c]) cs)"

definition splitlines :: "bytes \<Rightarrow> bytes list" where
  "splitlines s = splitlines_from [] s"

text \<open>\<open>bytes.split()\<close> without arguments: the maximal runs of non-whitespace.\<close>

fun split_from :: "bytes \<Rightarrow> bytes \<Rightarrow> bytes list" where
  "split_from cur [] = (if cur = [] then [] else [cur])"
| "split_from cur (c # cs) =
     (if is_space c then (if cur = [] then split_from [] cs else cur # split_from [] cs)
      else split_from (cur @ [c]) cs)"

definition split :: "bytes \<Rightarrow> bytes list" where
  "split s = split_from [] s"

text \<open>\<open>s.split(sep)\<close> for a one-character separator: every piece, empty ones included.\<close>

fun split_on_from :: "char \<Rightarrow> bytes \<Rightarrow> bytes \<Rightarrow> bytes list" where
  "split_on_from sep cur [] = [cur]"
| "split_on_from sep cur (c # cs) =
     (if c = sep then cur # split_on_from sep [] cs else split_on_from sep (cur @ [c]) cs)"

definition split_on :: "char \<Rightarrow> bytes \<Rightarrow> bytes list" where
  "split_on sep s = split_on_from sep [] s"

text \<open>\<open>s.split(sep, 1)\<close>: at most one split, at the first separator.\<close>

definition split_on1 :: "char \<Rightarrow> bytes \<Rightarrow> bytes list" where
  "split_on1 sep s =
     (if sep \<in> set s then [takeWhile (\<lambda>c. c \<noteq> sep) s, tl (dropWhile (\<lambda>c. c \<noteq> sep) s)]
      else [s])"

text \<open>Indexing a list with a non-negative index raises \<open>IndexError\<close> out of range.\<close>

definition getitem :: "'a list \<Rightarrow> nat \<Rightarrow> error + 'a" where
  "getitem xs i = (if i < length xs then Inr (xs ! i) else Inl IndexError)"

text \<open>
  \<open>int(s)\<close> on a string or bytes object, base 10: surrounding whitespace, an optional
  sign, then decimal digits in which single underscores may separate digits. Anything
  else raises \<open>ValueError\<close> (here \<open>None\<close>). Only ASCII digits and whitespace are modelled.
\<close>

definition is_digit :: "char \<Rightarrow> bool" where
  "is_digit c = (48 \<le> (of_char c :: nat) \<and> (of_char c :: nat) \<le> 57)"

definition digit_val :: "char \<Rightarrow> int" where
  "digit_val c = of_char c - 48"

fun digits_from :: "bool \<Rightarrow> int \<Rightarrow> string \<Rightarrow> int option" where
  "digits_from prev acc [] = (if prev then Some acc else None)"
| "digits_from prev acc (c # cs) =
     (if is_digit c then digits_from True (acc * 10 + digit_val c) cs
      else if c = CHR ''_'' \<and> prev then digits_from False acc cs
      else None)"

definition py_int :: "string \<Rightarrow> int option" where
  "py_int s =
     (case strip s of
        [] \<Rightarrow> None
      | c # cs \<Rightarrow>
          if c = CHR ''-'' then map_option uminus (digits_from False 0 cs)
          else if c = CHR ''+'' then digits_from False 0 cs
          else digits_from False 0 (c # cs))"

section \<open>The controller (class Media)\<close>

text \<open>
  The attributes of a \<open>Media\<close> object that \<open>setparticipantoffer\<close>, \<open>transmit\<close> and
  \<open>stop\<close> read or write. \<open>pipe\<close> is the list of messages sent so far to the worker
  process: \<open>Some (ip, port)\<close> for a remote address, \<open>None\<close> for the stop request.
\<close>

record Media =
  remoteip :: "bytes option"
  remoteport :: "int option"
  transmitting :: bool
  pipe :: "(bytes \<times> int) option list"

text \<open>
  One line of \<open>setparticipantoffer\<close>'s loop. An exception leaves the assignments made
  so far in place, so the state is returned together with the exception, if any.
\<close>

definition offer_line :: "Media \<Rightarrow> bytes \<Rightarrow> Media \<times> error option" where
  "offer_line m line =
     (case (if startswith line ''c='' then
              (case getitem (split line) 2 of
                 Inl e \<Rightarrow> Inl e
               | Inr ip \<Rightarrow> Inr (m\<lparr>remoteip := Some ip\<rparr>))
            else Inr m) of
        Inl e \<Rightarrow> (m, Some e)
      | Inr m1 \<Rightarrow>
          if startswith line ''m='' then
            (case getitem (split line) 1 of
               Inl e \<Rightarrow> (m1, Some e)
             | Inr tok \<Rightarrow>
                 (case py_int tok of
                    None \<Rightarrow> (m1, Some ValueError)
                  | Some port \<Rightarrow> (m1\<lparr>remoteport := Some port\<rparr>, None)))
          else (m1, None))"

fun offer_lines :: "Media \<Rightarrow> bytes list \<Rightarrow> Media \<times> error option" where
  "offer_lines m [] = (m, None)"
| "offer_lines m (line # rest) =
     (case offer_line m line of
        (m1, Some e) \<Rightarrow> (m1, Some e)
      | (m1, None) \<Rightarrow> offer_lines m1 rest)"

definition setparticipantoffer :: "Media \<Rightarrow> bytes \<Rightarrow> Media \<times> error option" where
  "setparticipantoffer m sdp =
     (if transmitting m then (m, None) else offer_lines m (splitlines sdp))"

definition transmit :: "Media \<Rightarrow> Media" where
  "transmit m =
     (if transmitting m then m
      else let m1 = m\<lparr>transmitting := True\<rparr> in
        (case (remoteip m1, remoteport m1) of
           (Some ip, Some port) \<Rightarrow> m1\<lparr>pipe := pipe m1 @ [Some (ip, port)]\<rparr>
         | _ \<Rightarrow> m1))"

definition stop :: "Media \<Rightarrow> Media" where
  "stop m = m\<lparr>pipe := pipe m @ [None]\<rparr>"

text \<open>The calls a collaborator can make on an endpoint, and a sequence of them.\<close>

datatype call = SetParticipantOffer bytes | Transmit | Stop

fun do_call :: "Media \<Rightarrow> call \<Rightarrow> Media" where
  "do_call m (SetParticipantOffer sdp) = fst (setparticipantoffer m sdp)"
| "do_call m Transmit = transmit m"
| "do_call m Stop = stop m"

definition do_calls :: "Media \<Rightarrow> call list \<Rightarrow> Media" where
  "do_calls m cs = foldl do_call m cs"

section \<open>Payload streams (classes RTPStream, RTPFile, RTPRandomStream)\<close>

text \<open>
  The values a directive or keyword argument can carry. A Python \<open>float\<close> is modelled by
  the rational number it denotes, so arithmetic on periods and times is exact.
\<close>

datatype pyval = PInt int | PFloat rat | PStr string | PBool bool | PNone

datatype cls = Base | File | Random

text \<open>
  The attributes of a stream object. \<open>f\<close> is what is left to read of the file of an
  \<open>RTPFile\<close>; \<open>name\<close> is \<open>None\<close> while the attribute does not exist; \<open>extra\<close> holds the
  attributes that directives create.
\<close>

record RTPStream =
  cls :: cls
  s_PT :: "int option"
  rtplen :: "int option"
  codec :: "int option \<times> string option \<times> string option"
  s_seq :: int
  period :: rat
  s_SSRC :: int
  s_TS :: int
  numsamples :: "int option"
  eof :: bool
  f :: bytes
  name :: "string option"
  extra :: "(string \<times> pyval) list"

definition defaultcodecs :: "(int \<times> string option \<times> string option) list" where
  "defaultcodecs =
     [(0, Some ''PCMU/8000'', None),
      (3, Some ''GSM/8000'', None),
      (4, Some ''G723/8000'', None),
      (5, Some ''DVI4/8000'', None),
      (6, Some ''DVI4/16000'', None),
      (7, Some ''LPC/8000'', None),
      (8, Some ''PCMA/8000'', None),
      (9, Some ''G722/8000'', None),
      (10, Some ''L16/44100/2'', None),
      (11, Some ''L16/44100/1'', None),
      (12, Some ''QCELP/8000'', None),
      (13, Some ''CN/8000'', None),
      (14, Some ''MPA/90000'', None),
      (15, Some ''G728/8000'', None),
      (16, Some ''DVI4/11025'', None),
      (17, Some ''DVI4/22050'', None),
      (18, Some ''G729/8000'', None)]"

text \<open>\<open>[PT, *RTPStream.defaultcodecs[PT]]\<close> if \<open>PT\<close> is in the table, else \<open>[PT, None, None]\<close>.\<close>

definition codec_of_PT :: "int \<Rightarrow> int option \<times> string option \<times> string option" where
  "codec_of_PT pt =
     (case map_of defaultcodecs pt of
        Some (cname, cformat) \<Rightarrow> (Some pt, cname, cformat)
      | None \<Rightarrow> (Some pt, None, None))"

text \<open>\<open>int(x)\<close> on a float truncates towards zero.\<close>

definition py_trunc :: "rat \<Rightarrow> int" where
  "py_trunc r = (if 0 \<le> r then \<lfloor>r\<rfloor> else \<lceil>r\<rceil>)"

text \<open>
  \<open>samplingrate = int(self.codec[1].split('/')[1]); int(samplingrate * self.period)\<close>,
  with \<open>None\<close> when the \<open>try\<close> block raises.
\<close>

definition derive_numsamples :: "string \<Rightarrow> rat \<Rightarrow> int option" where
  "derive_numsamples cname per =
     (case getitem (split_on (CHR ''/'') cname) 1 of
        Inl e \<Rightarrow> None
      | Inr tok \<Rightarrow>
          (case py_int tok of
             None \<Rightarrow> None
           | Some samplingrate \<Rightarrow> Some (py_trunc (of_int samplingrate * per))))"

text \<open>
  The keyword arguments \<open>**params\<close> of \<open>RTPStream.__init__\<close> that it looks at, each
  \<open>None\<close> when not passed, and the three numbers that \<open>random.randint\<close> draws.
\<close>

record kwargs =
  kw_codecname :: "string option"
  kw_codecformat :: "string option"
  kw_seq :: "int option"
  kw_period :: "rat option"
  kw_SSRC :: "int option"
  kw_TS :: "int option"
  kw_numsamples :: "int option"

definition no_kwargs :: kwargs where
  "no_kwargs = \<lparr> kw_codecname = None, kw_codecformat = None, kw_seq = None, kw_period = None,
                  kw_SSRC = None, kw_TS = None, kw_numsamples = None \<rparr>"

record draws =
  rand_seq :: int
  rand_SSRC :: int
  rand_TS :: int

text \<open>
  \<open>RTPStream.__init__(self, PT, rtplen, **params)\<close>. The two positional parameters have
  no default: a call that does not supply them (here \<open>None\<close>) raises \<open>TypeError\<close>.
\<close>

definition RTPStream_init ::
  "int option \<Rightarrow> int option \<Rightarrow> kwargs \<Rightarrow> draws \<Rightarrow> error + RTPStream" where
  "RTPStream_init PT_arg rtplen_arg params rnd =
     (case (PT_arg, rtplen_arg) of
        (Some pt, Some rl) \<Rightarrow>
          (let c0 = codec_of_PT pt;
               c1 = (case kw_codecname params of
                       Some n \<Rightarrow> (fst c0, Some n, snd (snd c0)) | None \<Rightarrow> c0);
               c2 = (case kw_codecformat params of
                       Some fm \<Rightarrow> (fst c1, fst (snd c1), Some fm) | None \<Rightarrow> c1)
           in case fst (snd c2) of
                None \<Rightarrow> Inl (PyException ''missing codecname'')
              | Some cname \<Rightarrow>
                  (let per = (case kw_period params of Some v \<Rightarrow> v | None \<Rightarrow> 20 / 1000);
                       s = \<lparr> cls = Base, s_PT = Some pt, rtplen = Some rl, codec = c2,
                             s_seq = (case kw_seq params of Some v \<Rightarrow> v | None \<Rightarrow> rand_seq rnd),
                             period = per,
                             s_SSRC = (case kw_SSRC params of Some v \<Rightarrow> v | None \<Rightarrow> rand_SSRC rnd),
                             s_TS = (case kw_TS params of Some v \<Rightarrow> v | None \<Rightarrow> rand_TS rnd),
                             numsamples = kw_numsamples params,
                             eof = True, f = [], name = None, extra = [] \<rparr>
                   in case numsamples s of
                        Some n \<Rightarrow> Inr s
                      | None \<Rightarrow>
                          (case derive_numsamples cname per of
                             None \<Rightarrow> Inl (PyException ''missing timestamp or numsamples or sampling rate'')
                           | Some n \<Rightarrow> Inr (s\<lparr>numsamples := Some n\<rparr>))))
      | _ \<Rightarrow> Inl TypeError)"

text \<open>\<open>RTPStream.nextparams\<close>, the default advance.\<close>

definition nextparams_default :: "RTPStream \<Rightarrow> error + RTPStream" where
  "nextparams_default s =
     (case numsamples s of
        None \<Rightarrow> Inl TypeError
      | Some n \<Rightarrow>
          (let s1 = s\<lparr>s_TS := (s_TS s + n) mod 0xffffffff\<rparr>
           in Inr (s1\<lparr>s_seq := (s_seq s1 + 1) mod 0xffff\<rparr>)))"

text \<open>\<open>RTPRandomStream.__init__(self, PT, rtplen, **params)\<close>.\<close>

definition RTPRandomStream_init :: "int \<Rightarrow> int \<Rightarrow> kwargs \<Rightarrow> draws \<Rightarrow> error + RTPStream" where
  "RTPRandomStream_init PT_arg rtplen_arg params rnd =
     (case RTPStream_init (Some PT_arg) (Some rtplen_arg) params rnd of
        Inl e \<Rightarrow> Inl e
      | Inr s \<Rightarrow> Inr (s\<lparr>cls := Random, eof := False\<rparr>))"

subsection \<open>Reading the replay file\<close>

text \<open>
  The loop of \<open>RTPFile.readupto\<close>: \<open>buf\<close> is the bytes read so far, the last argument the
  rest of the file. The result is \<open>None\<close> at end of file, else the bytes before the mark,
  with what is left of the file.
\<close>

fun readupto_loop :: "bytes \<Rightarrow> bytes \<Rightarrow> bytes \<Rightarrow> bytes option \<times> bytes" where
  "readupto_loop mark buf [] = (None, [])"
| "readupto_loop mark buf (b # rest) =
     (let buf1 = buf @ [b]
      in if endswith buf1 mark
         then (Some (if mark = [] then [] else take (length buf1 - length mark) buf1), rest)
         else readupto_loop mark buf1 rest)"

definition readupto :: "RTPStream \<Rightarrow> bytes \<Rightarrow> bytes \<times> RTPStream" where
  "readupto s mark =
     (case readupto_loop mark [] (f s) of
        (None, rest) \<Rightarrow> ([], s\<lparr>eof := True, f := rest\<rparr>)
      | (Some r, rest) \<Rightarrow> (r, s\<lparr>f := rest\<rparr>))"

subsection \<open>Directive blocks\<close>

text \<open>
  A fragment of the library function \<open>ast.literal_eval\<close>: \<open>True\<close>, \<open>False\<close>, \<open>None\<close>,
  decimal and hexadecimal integers and decimals \<open>digits.digits\<close> with an optional sign,
  and quoted strings without escapes. \<open>None\<close> stands for the exception that makes
  \<open>nextparams\<close> skip the line. The functions below take the evaluator as a parameter.
\<close>

definition is_hexdigit :: "char \<Rightarrow> bool" where
  "is_hexdigit c = (is_digit c \<or> (97 \<le> (of_char c :: nat) \<and> (of_char c :: nat) \<le> 102)
                    \<or> (65 \<le> (of_char c :: nat) \<and> (of_char c :: nat) \<le> 70))"

definition hexdigit_val :: "char \<Rightarrow> int" where
  "hexdigit_val c =
     (if is_digit c then of_char c - 48
      else if 97 \<le> (of_char c :: nat) then of_char c - 87 else of_char c - 55)"

definition hex_value :: "string \<Rightarrow> int option" where
  "hex_value ds =
     (if ds \<noteq> [] \<and> list_all is_hexdigit ds
      then Some (foldl (\<lambda>acc c. acc * 16 + hexdigit_val c) 0 ds) else None)"

definition dec_value :: "string \<Rightarrow> int" where
  "dec_value ds = foldl (\<lambda>acc c. acc * 10 + digit_val c) 0 ds"

definition literal_num :: "string \<Rightarrow> pyval option" where
  "literal_num s =
     (if startswith s ''0x'' \<or> startswith s ''0X'' then map_option PInt (hex_value (drop 2 s))
      else if s \<noteq> [] \<and> list_all is_digit s then
        (if hd s = CHR ''0'' \<and> \<not> list_all (\<lambda>c. c = CHR ''0'') s then None
         else Some (PInt (dec_value s)))
      else
        (let ip = takeWhile is_digit s; rest = dropWhile is_digit s
         in if ip \<noteq> [] \<and> rest \<noteq> [] \<and> hd rest = CHR ''.'' \<and> tl rest \<noteq> []
               \<and> list_all is_digit (tl rest)
            then Some (PFloat (of_int (dec_value ip)
                               + of_int (dec_value (tl rest)) / 10 ^ length (tl rest)))
            else None))"

definition negate :: "pyval \<Rightarrow> pyval" where
  "negate v = (case v of PInt i \<Rightarrow> PInt (- i) | PFloat r \<Rightarrow> PFloat (- r) | _ \<Rightarrow> v)"

definition literal_eval :: "string \<Rightarrow> pyval option" where
  "literal_eval s =
     (if s = ''True'' then Some (PBool True)
      else if s = ''False'' then Some (PBool False)
      else if s = ''None'' then Some PNone
      else case s of
             [] \<Rightarrow> None
           | c # cs \<Rightarrow>
               if c = CHR ''-'' then map_option negate (literal_num cs)
               else if c = CHR ''+'' then literal_num cs
               else if (c = CHR 0x27 \<or> c = CHR 0x22) \<and> cs \<noteq> [] \<and> last cs = c
                       \<and> list_all (\<lambda>d. d \<noteq> c \<and> d \<noteq> CHR 0x5C \<and> d \<noteq> CHR 0x0A) (butlast cs)
                    then Some (PStr (butlast cs))
               else literal_num s)"

text \<open>
  The first loop of \<open>RTPFile.nextparams\<close>: comment lines and lines that raise inside the
  \<open>try\<close> block add nothing to the dictionary \<open>params\<close>. Decoding is the identity
  (directive text is taken to be ASCII).
\<close>

fun read_params ::
  "(string \<Rightarrow> pyval option) \<Rightarrow> bytes list \<Rightarrow> (string \<times> pyval) list \<Rightarrow> (string \<times> pyval) list" where
  "read_params lit [] params = params"
| "read_params lit (line # lines) params =
     (if startswith (strip line) ''#'' then read_params lit lines params
      else case split_on1 (CHR ''='') line of
             [k, v] \<Rightarrow>
               (case lit (strip v) of
                  None \<Rightarrow> read_params lit lines params
                | Some x \<Rightarrow> read_params lit lines (AList.update (strip k) x params))
           | _ \<Rightarrow> read_params lit lines params)"

text \<open>\<open>params.pop(k, None)\<close>: the value, if any, and the dictionary without the key.\<close>

definition pop :: "string \<Rightarrow> (string \<times> pyval) list \<Rightarrow> pyval option \<times> (string \<times> pyval) list" where
  "pop k params = (map_of params k, AList.delete k params)"

definition bind_err :: "error + 'a \<Rightarrow> ('a \<Rightarrow> error + 'b) \<Rightarrow> error + 'b" where
  "bind_err r k = (case r of Inl e \<Rightarrow> Inl e | Inr x \<Rightarrow> k x)"

text \<open>
  \<open>raise Exception("... {}".format(self))\<close>: formatting calls \<open>__str__\<close>, which reads
  \<open>self.name\<close> and raises \<open>AttributeError\<close> when the attribute was never set.
\<close>

definition raise_exception :: "RTPStream \<Rightarrow> string \<Rightarrow> error" where
  "raise_exception s msg = (case name s of None \<Rightarrow> AttributeError | Some n \<Rightarrow> PyException msg)"

text \<open>
  The attributes of the model are typed. Where a directive stores a value of another type
  (Python would go on with it), the model stops with \<open>Unmodelled\<close>.
\<close>

text \<open>Lines 293 to 297: \<open>dseq\<close> and \<open>seq\<close>.\<close>

definition update_seq ::
  "(string \<times> pyval) list \<Rightarrow> RTPStream \<Rightarrow> error + ((string \<times> pyval) list \<times> RTPStream)" where
  "update_seq params0 s =
     (let (dseq_opt, params1) = pop ''dseq'' params0;
          dseq = (case dseq_opt of None \<Rightarrow> PInt 1 | Some v \<Rightarrow> v)
      in case pop ''seq'' params1 of
           (Some v, params2) \<Rightarrow>
             (case v of PInt n \<Rightarrow> Inr (params2, s\<lparr>s_seq := n\<rparr>) | _ \<Rightarrow> Inl Unmodelled)
         | (None, params2) \<Rightarrow>
             (case dseq of
                PInt d \<Rightarrow> Inr (params2, s\<lparr>s_seq := (s_seq s + d) mod 0xffff\<rparr>)
              | _ \<Rightarrow> Inl Unmodelled))"

text \<open>Lines 299 to 312: \<open>PT\<close>, \<open>codecname\<close>, \<open>codecformat\<close> and the two checks.\<close>

definition update_codec ::
  "(string \<times> pyval) list \<Rightarrow> RTPStream \<Rightarrow> error + ((string \<times> pyval) list \<times> RTPStream)" where
  "update_codec params0 s0 =
     bind_err
       (case pop ''PT'' params0 of
          (Some (PInt n), ps) \<Rightarrow> Inr (ps, s0\<lparr>s_PT := Some n, codec := codec_of_PT n\<rparr>)
        | (Some PNone, ps) \<Rightarrow> Inr (ps, s0\<lparr>s_PT := None, codec := (None, None, None)\<rparr>)
        | (Some v, ps) \<Rightarrow> Inl Unmodelled
        | (None, ps) \<Rightarrow> Inr (ps, s0))
       (\<lambda>(params1, s1). bind_err
          (case pop ''codecname'' params1 of
             (Some (PStr n), ps) \<Rightarrow>
               Inr (ps, s1\<lparr>codec := (fst (codec s1), Some n, snd (snd (codec s1)))\<rparr>)
           | (Some PNone, ps) \<Rightarrow>
               Inr (ps, s1\<lparr>codec := (fst (codec s1), None, snd (snd (codec s1)))\<rparr>)
           | (Some v, ps) \<Rightarrow> Inl Unmodelled
           | (None, ps) \<Rightarrow> Inr (ps, s1))
          (\<lambda>(params2, s2). bind_err
             (case pop ''codecformat'' params2 of
                (Some (PStr fm), ps) \<Rightarrow>
                  Inr (ps, s2\<lparr>codec := (fst (codec s2), fst (snd (codec s2)), Some fm)\<rparr>)
              | (Some PNone, ps) \<Rightarrow>
                  Inr (ps, s2\<lparr>codec := (fst (codec s2), fst (snd (codec s2)), None)\<rparr>)
              | (Some v, ps) \<Rightarrow> Inl Unmodelled
              | (None, ps) \<Rightarrow> Inr (ps, s2))
             (\<lambda>(params3, s3).
                if s_PT s3 = None then Inl (raise_exception s3 ''missing PT param'')
                else if fst (snd (codec s3)) = None
                  then Inl (raise_exception s3 ''missing codecname'')
                else Inr (params3, s3))))"

text \<open>Lines 314 to 326: \<open>period\<close>, then the timestamp.\<close>

definition update_TS ::
  "(string \<times> pyval) list \<Rightarrow> RTPStream \<Rightarrow> error + ((string \<times> pyval) list \<times> RTPStream)" where
  "update_TS params0 s0 =
     bind_err
       (case pop ''period'' params0 of
          (Some (PFloat r), ps) \<Rightarrow> Inr (ps, s0\<lparr>period := r\<rparr>)
        | (Some (PInt i), ps) \<Rightarrow> Inr (ps, s0\<lparr>period := of_int i\<rparr>)
        | (Some v, ps) \<Rightarrow> Inl Unmodelled
        | (None, ps) \<Rightarrow> Inr (ps, s0))
       (\<lambda>(params1, s1).
          if map_of params1 ''timestamp'' \<noteq> None then
            (case pop ''TS'' params1 of
               (None, ps) \<Rightarrow> Inl (KeyError ''TS'')
             | (Some (PInt n), ps) \<Rightarrow> Inr (ps, s1\<lparr>s_TS := n\<rparr>)
             | (Some v, ps) \<Rightarrow> Inl Unmodelled)
          else bind_err
            (case pop ''numsamples'' params1 of
               (Some (PInt n), ps) \<Rightarrow> Inr (ps, s1\<lparr>numsamples := Some n\<rparr>)
             | (Some PNone, ps) \<Rightarrow> Inr (ps, s1\<lparr>numsamples := None\<rparr>)
             | (Some v, ps) \<Rightarrow> Inl Unmodelled
             | (None, ps) \<Rightarrow> Inr (ps, s1))
            (\<lambda>(params2, s2). bind_err
               (case numsamples s2 of
                  Some n \<Rightarrow> Inr (n, s2)
                | None \<Rightarrow>
                    (case fst (snd (codec s2)) of
                       None \<Rightarrow> Inl (raise_exception s2 ''cannot compute TS'')
                     | Some cname \<Rightarrow>
                         (case derive_numsamples cname (period s2) of
                            None \<Rightarrow> Inl (raise_exception s2 ''cannot compute TS'')
                          | Some n \<Rightarrow> Inr (n, s2\<lparr>numsamples := Some n\<rparr>))))
               (\<lambda>(n, s3). Inr (params2, s3\<lparr>s_TS := (s_TS s3 + n) mod 0xffffffff\<rparr>))))"

text \<open>Line 328: \<open>self.__dict__.update(params)\<close>, one remaining entry at a time.\<close>

definition set_attribute :: "RTPStream \<Rightarrow> string \<times> pyval \<Rightarrow> error + RTPStream" where
  "set_attribute s kv =
     (let k = fst kv; v = snd kv in
      if k = ''TS'' then (case v of PInt n \<Rightarrow> Inr (s\<lparr>s_TS := n\<rparr>) | _ \<Rightarrow> Inl Unmodelled)
      else if k = ''SSRC'' then (case v of PInt n \<Rightarrow> Inr (s\<lparr>s_SSRC := n\<rparr>) | _ \<Rightarrow> Inl Unmodelled)
      else if k = ''numsamples'' then
        (case v of PInt n \<Rightarrow> Inr (s\<lparr>numsamples := Some n\<rparr>)
                 | PNone \<Rightarrow> Inr (s\<lparr>numsamples := None\<rparr>) | _ \<Rightarrow> Inl Unmodelled)
      else if k = ''rtplen'' then
        (case v of PInt n \<Rightarrow> Inr (s\<lparr>rtplen := Some n\<rparr>)
                 | PNone \<Rightarrow> Inr (s\<lparr>rtplen := None\<rparr>) | _ \<Rightarrow> Inl Unmodelled)
      else if k = ''eof'' then (case v of PBool b \<Rightarrow> Inr (s\<lparr>eof := b\<rparr>) | _ \<Rightarrow> Inl Unmodelled)
      else if k = ''name'' then (case v of PStr n \<Rightarrow> Inr (s\<lparr>name := Some n\<rparr>) | _ \<Rightarrow> Inl Unmodelled)
      else if k \<in> set [''f'', ''codec'', ''seq'', ''PT'', ''period'', ''nextparams'',
                        ''nextpayload'', ''nextpacket'', ''readupto''] then Inl Unmodelled
      else Inr (s\<lparr>extra := AList.update k v (extra s)\<rparr>))"

fun merge_params :: "(string \<times> pyval) list \<Rightarrow> RTPStream \<Rightarrow> error + RTPStream" where
  "merge_params [] s = Inr s"
| "merge_params (kv # params) s =
     (case set_attribute s kv of Inl e \<Rightarrow> Inl e | Inr s1 \<Rightarrow> merge_params params s1)"

text \<open>\<open>RTPFile.nextparams\<close>.\<close>

definition nextparams_File :: "(string \<Rightarrow> pyval option) \<Rightarrow> RTPStream \<Rightarrow> error + RTPStream" where
  "nextparams_File lit s0 =
     (let (parambuf, s) = readupto s0 ''<<<<'';
          params = read_params lit (splitlines parambuf) []
      in bind_err (update_seq params s) (\<lambda>(params1, s1).
         bind_err (update_codec params1 s1) (\<lambda>(params2, s2).
         bind_err (update_TS params2 s2) (\<lambda>(params3, s3).
         merge_params params3 s3))))"

text \<open>
  \<open>RTPFile.__init__(self, rtpfile)\<close>: \<open>path\<close> is the file name when \<open>rtpfile\<close> is a
  string and \<open>None\<close> when it is an open file (then \<open>self.name = f.name\<close> raises inside
  its \<open>try\<close>, and \<open>name\<close> stays unset); \<open>content\<close> is what the file holds. The first
  statement is \<open>RTPStream.__init__(self)\<close>, a call without \<open>PT\<close> and \<open>rtplen\<close>.
\<close>

definition RTPFile_init ::
  "(string \<Rightarrow> pyval option) \<Rightarrow> string option \<Rightarrow> bytes \<Rightarrow> draws \<Rightarrow> error + RTPStream" where
  "RTPFile_init lit path content rnd =
     (case RTPStream_init None None no_kwargs rnd of
        Inl e \<Rightarrow> Inl e
      | Inr s \<Rightarrow> nextparams_File lit (s\<lparr>cls := File, eof := False, f := content, name := path\<rparr>))"

subsection \<open>Producing packets\<close>

text \<open>
  \<open>nextpayload\<close>, by class. \<open>rnd i\<close> is the byte that the \<open>i\<close>-th \<open>random.choice\<close> of this
  call returns.
\<close>

definition nextpayload :: "(nat \<Rightarrow> char) \<Rightarrow> RTPStream \<Rightarrow> error + (bytes \<times> RTPStream)" where
  "nextpayload rnd s =
     (case cls s of
        Base \<Rightarrow> Inr ([], s)
      | File \<Rightarrow> Inr (readupto s ''>>>>'')
      | Random \<Rightarrow>
          (case rtplen s of
             None \<Rightarrow> Inl TypeError
           | Some n \<Rightarrow> Inr (map rnd [0..<nat n], s)))"

definition nextparams :: "(string \<Rightarrow> pyval option) \<Rightarrow> RTPStream \<Rightarrow> error + RTPStream" where
  "nextparams lit s = (case cls s of File \<Rightarrow> nextparams_File lit s | _ \<Rightarrow> nextparams_default s)"

text \<open>\<open>RTPStream.nextpacket\<close>: the packet, the duration, and the stream afterwards.\<close>

definition nextpacket ::
  "(string \<Rightarrow> pyval option) \<Rightarrow> (nat \<Rightarrow> char) \<Rightarrow> RTPStream \<Rightarrow> error + (RTP \<times> rat \<times> RTPStream)" where
  "nextpacket lit rnd s =
     bind_err (nextpayload rnd s) (\<lambda>(pl, s1).
       case s_PT s1 of
         None \<Rightarrow> Inl Unmodelled
       | Some pt \<Rightarrow>
           (let rtp = RTP_init pl pt (s_seq s1) (s_TS s1) (s_SSRC s1)
            in bind_err (nextparams lit s1) (\<lambda>s2. Inr (rtp, period s2, s2))))"

section \<open>The sending loop of the worker process (Media.run, lines 113 to 142)\<close>









section \<open>Vocabulary of the properties\<close>

text \<open>The byte at index \<open>i\<close> of a buffer, zero beyond its end.\<close>

definition byte_at :: "bytes \<Rightarrow> nat \<Rightarrow> char" where
  "byte_at buf i = (if i < length buf then buf ! i else CHR 0x00)"

text \<open>\<open>n\<close> calls of the default \<open>nextparams\<close> in a row.\<close>

fun advance :: "nat \<Rightarrow> RTPStream \<Rightarrow> error + RTPStream" where
  "advance 0 s = Inr s"
| "advance (Suc n) s = bind_err (nextparams_default s) (advance n)"

text \<open>The stream that \<open>RTPStream(0, 160, seq=0, SSRC=0, TS=0)\<close> constructs.\<close>

definition pcmu_stream :: RTPStream where
  "pcmu_stream =
     \<lparr> cls = Base, s_PT = Some 0, rtplen = Some 160,
       codec = (Some 0, Some ''PCMU/8000'', None), s_seq = 0, period = 20 / 1000,
       s_SSRC = 0, s_TS = 0, numsamples = Some 160, eof = True, f = [], name = None,
       extra = [] \<rparr>"

text \<open>An endpoint as \<open>Media.__init__\<close> leaves it: no remote address, not transmitting.\<close>

definition fresh_media :: Media where
  "fresh_media = \<lparr>remoteip = None, remoteport = None, transmitting = False, pipe = []\<rparr>"

text \<open>
  Successive \<open>nextpacket\<close> calls, one per element of the list (the random bytes of that
  call): what each call returns, with the stream as the call leaves it.
\<close>

fun nextpackets ::
  "(string \<Rightarrow> pyval option) \<Rightarrow> (nat \<Rightarrow> char) list \<Rightarrow> RTPStream
     \<Rightarrow> error + (RTP \<times> rat \<times> RTPStream) list" where
  "nextpackets lit [] s = Inr []"
| "nextpackets lit (rnd # rnds) s =
     bind_err (nextpacket lit rnd s) (\<lambda>(rtp, d, s1).
       bind_err (nextpackets lit rnds s1) (\<lambda>rest. Inr ((rtp, d, s1) # rest)))"

text \<open>A random stream that can produce payloads of \<open>n\<close> bytes.\<close>

definition yields_len :: "int \<Rightarrow> RTPStream \<Rightarrow> bool" where
  "yields_len n s = (cls s = Random \<and> rtplen s = Some n \<and> s_PT s \<noteq> None
                       \<and> numsamples s \<noteq> None \<and> \<not> eof s)"

text \<open>
  The stream of the module's self-test, \<open>RTPRandomStream(PT=10, rtplen=40)\<close>, when
  \<open>random.randint\<close> draws 7, 9 and 11.
\<close>

definition l16_stream :: RTPStream where
  "l16_stream =
     \<lparr> cls = Random, s_PT = Some 10, rtplen = Some 40,
       codec = (Some 10, Some ''L16/44100/2'', None), s_seq = 7, period = 20 / 1000,
       s_SSRC = 9, s_TS = 11, numsamples = Some 882, eof = False, f = [], name = None,
       extra = [] \<rparr>"





text \<open>The replay file that the module's self-test writes (lines 348 to 358).\<close>

definition main_fixture :: bytes where
  "main_fixture =
     ''\<newline>PT=0\<newline>seq=0x100\<newline><<<<0123>>>>\<newline><<<<4567>>>>\<newline>\<newline>#simulating packet lost\<newline>dseq=2\<newline><<<<abc>>>>\<newline><<<<def>>>>\<newline>''"

text \<open>
  The attributes of an \<open>RTPFile\<close> object in the middle of a replay of PCMU audio, with
  \<open>content\<close> still to read from its file.
\<close>

definition replaying :: "bytes \<Rightarrow> RTPStream" where
  "replaying content =
     \<lparr> cls = File, s_PT = Some 0, rtplen = None,
       codec = (Some 0, Some ''PCMU/8000'', None), s_seq = 256, period = 20 / 1000,
       s_SSRC = 9, s_TS = 171, numsamples = Some 160, eof = False, f = content,
       name = Some ''replay.rtp'', extra = [] \<rparr>"

text \<open>A packet whose header fields are within their bit widths.\<close>

definition valid_RTP :: "RTP \<Rightarrow> bool" where
  "valid_RTP p =
     (0 \<le> version p \<and> version p < 4 \<and> 0 \<le> P p \<and> P p < 2 \<and> 0 \<le> X p \<and> X p < 2
      \<and> 0 \<le> CC p \<and> CC p < 16 \<and> 0 \<le> M p \<and> M p < 2 \<and> 0 \<le> PT p \<and> PT p < 128
      \<and> 0 \<le> seq p \<and> seq p < 65536 \<and> 0 \<le> TS p \<and> TS p < 4294967296
      \<and> 0 \<le> SSRC p \<and> SSRC p < 4294967296)"

text \<open>
  Vocabulary for \<open>setparticipantoffer\<close>: a line on which the call fails (a \<open>c=\<close> line
  with fewer than three tokens, an \<open>m=\<close> line with fewer than two tokens or with a second
  token that is no integer), the exception it raises, the exception of the first such
  line, and the address that the last \<open>c=\<close> and the last \<open>m=\<close> line of a list give.
\<close>

definition malformed :: "bytes \<Rightarrow> bool" where
  "malformed line =
     ((startswith line ''c='' \<and> length (split line) < 3)
      \<or> (startswith line ''m=''
          \<and> (case getitem (split line) 1 of Inl e \<Rightarrow> True | Inr tok \<Rightarrow> py_int tok = None)))"

definition error_of :: "bytes \<Rightarrow> error" where
  "error_of line =
     (if startswith line ''c='' \<or> length (split line) < 2 then IndexError else ValueError)"

definition first_error :: "bytes list \<Rightarrow> error option" where
  "first_error lines =
     (case dropWhile (\<lambda>l. \<not> malformed l) lines of [] \<Rightarrow> None | l # ls \<Rightarrow> Some (error_of l))"

definition offered_ip :: "bytes option \<Rightarrow> bytes list \<Rightarrow> bytes option" where
  "offered_ip old lines =
     (case filter (\<lambda>l. startswith l ''c='') lines of
        [] \<Rightarrow> old
      | l # ls \<Rightarrow> Some (split (last (l # ls)) ! 2))"

definition offered_port :: "int option \<Rightarrow> bytes list \<Rightarrow> int option" where
  "offered_port old lines =
     (case filter (\<lambda>l. startswith l ''m='') lines of
        [] \<Rightarrow> old
      | l # ls \<Rightarrow> py_int (split (last (l # ls)) ! 1))"

text \<open>The SDP answer of the module's self-test (lines 362 to 368).\<close>

definition main_sdp :: bytes where
  "main_sdp =
     ''v=0'' @ [CHR 0x0D, CHR 0x0A] @ ''o=- 123 123 IN IP4 toto'' @ [CHR 0x0D, CHR 0x0A]
     @ ''s=-'' @ [CHR 0x0A] @ ''m=audio 12345 RTP/AVP 116'' @ [CHR 0x0D, CHR 0x0A]
     @ ''c=IN IP4 127.0.0.1'' @ [CHR 0x0D, CHR 0x0A]
     @ ''a=rtpmap:116 AMR-WB/16000/1'' @ [CHR 0x0D, CHR 0x0A]"

text \<open>
  The decoder in the words of the specification (section 4.3, with the field widths of
  section 3), for comparison with \<open>frombytes\<close>: version is the top two bits of byte 0,
  padding and extension the next two, the CSRC count its low four bits; marker is the top
  bit of byte 1 and payload type its low seven bits; sequence number, timestamp and SSRC
  are big-endian in bytes 2 to 11; missing header bytes count as zero and the payload is
  everything from offset 12 on.
\<close>

definition decode_spec :: "bytes \<Rightarrow> RTP" where
  "decode_spec buf =
     \<lparr> payload = drop 12 buf,
       PT = of_char (byte_at buf 1) mod 128,
       seq = unpack_H (byte_at buf 2) (byte_at buf 3),
       TS = unpack_L (byte_at buf 4) (byte_at buf 5) (byte_at buf 6) (byte_at buf 7),
       SSRC = unpack_L (byte_at buf 8) (byte_at buf 9) (byte_at buf 10) (byte_at buf 11),
       version = of_char (byte_at buf 0) div 64,
       P = of_char (byte_at buf 0) div 32 mod 2,
       X = of_char (byte_at buf 0) div 16 mod 2,
       CC = of_char (byte_at buf 0) mod 16,
       M = of_char (byte_at buf 1) div 128 \<rparr>"

section \<open>Properties of the codec\<close>

lemma padded_nth:
  "i < 12 \<Longrightarrow> (take 12 buf @ replicate 12 (CHR 0x00)) ! i = byte_at buf i"
  by (auto simp: byte_at_def nth_append)

lemma and_15: "(a::int) AND 15 = a mod 16"
  using take_bit_eq_mask[of 4 a] by (simp add: take_bit_eq_mod mask_eq_exp_minus_1)

lemma and_127: "(a::int) AND 127 = a mod 128"
  using take_bit_eq_mask[of 7 a] by (simp add: take_bit_eq_mod mask_eq_exp_minus_1)

text \<open>
  What \<open>frombytes\<close> computes, field by field: bytes 0 and 1 enter as signed chars, as
  the format \<open>!bb\<close> says.
\<close>

lemma frombytes_signed_layout:
  "frombytes buf =
     Inr \<lparr> payload = drop 12 buf,
           PT = unpack_b (byte_at buf 1) mod 128,
           seq = unpack_H (byte_at buf 2) (byte_at buf 3),
           TS = unpack_L (byte_at buf 4) (byte_at buf 5) (byte_at buf 6) (byte_at buf 7),
           SSRC = unpack_L (byte_at buf 8) (byte_at buf 9) (byte_at buf 10) (byte_at buf 11),
           version = unpack_b (byte_at buf 0) div 64,
           P = unpack_b (byte_at buf 0) div 32 mod 2,
           X = unpack_b (byte_at buf 0) div 16 mod 2,
           CC = unpack_b (byte_at buf 0) mod 16,
           M = unpack_b (byte_at buf 1) div 128 \<rparr>"
  by (simp add: frombytes_def unpack_from_bbHLL_def padded_nth and_15 and_127 and_one_eq
      drop_bit_eq_div)

lemma of_char_bounds: "0 \<le> (of_char c :: int) \<and> (of_char c :: int) < 256"
proof -
  have a: "0 \<le> (of_char c :: int) mod 256" by (rule pos_mod_sign) simp
  have b: "(of_char c :: int) mod 256 < 256" by (rule pos_mod_bound) simp
  show ?thesis using a b by (simp only: of_char_mod_256) 
qed

lemma signed_div_64: "((u::int) - 256) div 64 = u div 64 - 4"
proof -
  have "(u + 64 * (- 4)) div 64 = (- 4) + u div 64" by (rule div_mult_self2) simp
  then show ?thesis by simp
qed

lemma signed_div_32: "((u::int) - 256) div 32 mod 2 = u div 32 mod 2"
proof -
  have "(u + 32 * (- 8)) div 32 = (- 8) + u div 32" by (rule div_mult_self2) simp
  then have "(u - 256) div 32 = u div 32 + 2 * (- 4)" by simp
  then show ?thesis by (simp only: mod_mult_self2)
qed

lemma signed_div_16: "((u::int) - 256) div 16 mod 2 = u div 16 mod 2"
proof -
  have "(u + 16 * (- 16)) div 16 = (- 16) + u div 16" by (rule div_mult_self2) simp
  then have "(u - 256) div 16 = u div 16 + 2 * (- 8)" by simp
  then show ?thesis by (simp only: mod_mult_self2)
qed

lemma signed_mod_16: "((u::int) - 256) mod 16 = u mod 16"
proof -
  have "(u + 16 * (- 16)) mod 16 = u mod 16" by (rule mod_mult_self2)
  then show ?thesis by simp
qed

lemma signed_mod_128: "((u::int) - 256) mod 128 = u mod 128"
proof -
  have "(u + 128 * (- 2)) mod 128 = u mod 128" by (rule mod_mult_self2)
  then show ?thesis by simp
qed

lemma signed_div_128:
  fixes u :: int
  assumes "0 \<le> u" "u < 256"
  shows "(if u < 128 then u else u - 256) div 128 = - (u div 128)"
proof (cases "u < 128")
  case True
  then have "u div 128 = 0" using assms(1) by (simp add: div_pos_pos_trivial)
  then show ?thesis using True by simp
next
  case False
  have "((u - 128) + 128 * 1) div 128 = 1 + (u - 128) div 128" by (rule div_mult_self2) simp
  moreover have "(u - 128) div 128 = 0"
    using False assms(2) by (simp add: div_pos_pos_trivial)
  ultimately have hi: "u div 128 = 1" by simp
  have "(u + 128 * (- 2)) div 128 = (- 2) + u div 128" by (rule div_mult_self2) simp
  then have "(u - 256) div 128 = - 1" using hi by simp
  then show ?thesis using False hi by simp
qed


lemma unpack_b_fields:
  "unpack_b c div 64 = of_char c div 64 - (if (of_char c :: int) < 128 then 0 else 4)"
  "unpack_b c div 32 mod 2 = of_char c div 32 mod 2"
  "unpack_b c div 16 mod 2 = of_char c div 16 mod 2"
  "unpack_b c mod 16 = of_char c mod 16"
  "unpack_b c mod 128 = of_char c mod 128"
  "unpack_b c div 128 = - (of_char c div 128)"
proof -
  show "unpack_b c div 64 = of_char c div 64 - (if (of_char c :: int) < 128 then 0 else 4)"
    by (simp add: unpack_b_def Let_def signed_div_64)
  show "unpack_b c div 32 mod 2 = of_char c div 32 mod 2"
    by (simp add: unpack_b_def Let_def signed_div_32)
  show "unpack_b c div 16 mod 2 = of_char c div 16 mod 2"
    by (simp add: unpack_b_def Let_def signed_div_16)
  show "unpack_b c mod 16 = of_char c mod 16"
    by (simp add: unpack_b_def Let_def signed_mod_16)
  show "unpack_b c mod 128 = of_char c mod 128"
    by (simp add: unpack_b_def Let_def signed_mod_128)
  show "unpack_b c div 128 = - (of_char c div 128)"
    using signed_div_128[of "of_char c"] of_char_bounds[of c] by (simp add: unpack_b_def Let_def)
qed

text \<open>
  Claim C8 (what the code does instead). \<open>RTP.frombytes\<close> returns a packet for every
  byte string, also one shorter than 12 bytes, with missing header bytes counted as zero
  and everything from offset 12 on as payload; padding, extension, CSRC count, payload
  type, sequence number, timestamp and SSRC are the fields that the specification
  describes. Version and marker are not: since bytes 0 and 1 are unpacked as signed
  chars, the version is 4 less than the two-bit field whenever the top bit of byte 0 is
  set (\<open>- 2\<close> for every version 2 packet), and the marker is the negated bit (\<open>- 1\<close> when
  it is set).
\<close>

theorem frombytes_against_spec:
  "frombytes buf =
     Inr ((decode_spec buf)
            \<lparr>version := version (decode_spec buf)
                          - (if (of_char (byte_at buf 0) :: int) < 128 then 0 else 4),
             M := - M (decode_spec buf)\<rparr>)"
  by (simp only: frombytes_signed_layout unpack_b_fields decode_spec_def)
     simp

theorem frombytes_against_spec_witness:
  "frombytes (CHR 0x80 # CHR 0x80 # replicate 10 (CHR 0x00) @ ''ab'')
     = Inr \<lparr>payload = ''ab'', PT = 0, seq = 0, TS = 0, SSRC = 0, version = - 2, P = 0,
            X = 0, CC = 0, M = - 1\<rparr>
   \<and> version (decode_spec (CHR 0x80 # CHR 0x80 # replicate 10 (CHR 0x00) @ ''ab'')) = 2
   \<and> M (decode_spec (CHR 0x80 # CHR 0x80 # replicate 10 (CHR 0x00) @ ''ab'')) = 1"
proof -
  have d: "decode_spec (CHR 0x80 # CHR 0x80 # replicate 10 (CHR 0x00) @ ''ab'')
     = \<lparr>payload = ''ab'', PT = 0, seq = 0, TS = 0, SSRC = 0, version = 2, P = 0, X = 0,
          CC = 0, M = 1\<rparr>"
    by code_simp
  have b: "(of_char (byte_at (CHR 0x80 # CHR 0x80 # replicate 10 (CHR 0x00) @ ''ab'') 0) :: int)
             = 128"
    by code_simp
  show ?thesis
    using frombytes_against_spec[of "CHR 0x80 # CHR 0x80 # replicate 10 (CHR 0x00) @ ''ab''"]
    by (simp only: d b) simp
qed

section \<open>Properties of the controller\<close>

lemma transmitting_transmit: "transmitting (transmit m)"
  by (simp add: transmit_def Let_def split: option.splits)

lemma offer_when_transmitting: "transmitting m \<Longrightarrow> setparticipantoffer m sdp = (m, None)"
  by (simp add: setparticipantoffer_def)

text \<open>
  Claim C7. A second \<open>transmit\<close> right after the first changes nothing: the endpoint and
  the messages sent on the pipe are those after the first call. And once the
  transmitting flag is set, \<open>setparticipantoffer\<close> returns without touching the endpoint,
  whatever the SDP text, so remote IP and port stay as they are.
\<close>

theorem transmit_twice_offer_guarded:
  "transmit (transmit m) = transmit m
   \<and> setparticipantoffer (transmit m) sdp = (transmit m, None)
   \<and> (transmitting m \<longrightarrow> setparticipantoffer m sdp = (m, None))"
  by (simp add: offer_when_transmitting transmitting_transmit)
     (simp add: transmit_def Let_def split: option.splits)

theorem transmit_twice_offer_guarded_witness:
  "transmitting \<lparr>remoteip = Some ''10.0.0.1'', remoteport = Some 4000, transmitting = True,
                 pipe = [Some (''10.0.0.1'', 4000)]\<rparr>
   \<and> setparticipantoffer
        \<lparr>remoteip = Some ''10.0.0.1'', remoteport = Some 4000, transmitting = True,
          pipe = [Some (''10.0.0.1'', 4000)]\<rparr> ''c=IN IP4 10.0.0.2''
       = (\<lparr>remoteip = Some ''10.0.0.1'', remoteport = Some 4000, transmitting = True,
            pipe = [Some (''10.0.0.1'', 4000)]\<rparr>, None)"
  using transmit_twice_offer_guarded
    [of "\<lparr>remoteip = Some ''10.0.0.1'', remoteport = Some 4000, transmitting = True,
           pipe = [Some (''10.0.0.1'', 4000)]\<rparr>" "''c=IN IP4 10.0.0.2''"]
  by simp

lemma do_call_transmitting:
  "transmitting m \<Longrightarrow>
     transmitting (do_call m c) \<and> remoteip (do_call m c) = remoteip m
     \<and> remoteport (do_call m c) = remoteport m
     \<and> pipe (do_call m c) = pipe m @ (if c = Stop then [None] else [])"
  by (cases c) (simp_all add: setparticipantoffer_def transmit_def stop_def)

lemma do_calls_transmitting:
  "transmitting m \<Longrightarrow>
     transmitting (do_calls m cs) \<and> remoteip (do_calls m cs) = remoteip m
     \<and> remoteport (do_calls m cs) = remoteport m
     \<and> pipe (do_calls m cs) = pipe m @ replicate (length (filter (\<lambda>c. c = Stop) cs)) None"
proof (induction cs arbitrary: m)
  case Nil
  then show ?case by (simp add: do_calls_def)
next
  case (Cons c cs)
  have t: "transmitting (do_call m c)" using Cons.prems do_call_transmitting by blast
  have eq: "do_calls m (c # cs) = do_calls (do_call m c) cs" by (simp add: do_calls_def)
  show ?case
    unfolding eq
    using Cons.IH[OF t] do_call_transmitting[OF Cons.prems, of c]
    by (cases "c = Stop") (simp_all add: replicate_app_Cons_same)
qed

lemma transmit_unset:
  "remoteip m = None \<or> remoteport m = None \<Longrightarrow>
     transmitting (transmit m) \<and> pipe (transmit m) = pipe m
     \<and> remoteip (transmit m) = remoteip m \<and> remoteport (transmit m) = remoteport m"
  by (auto simp: transmit_def Let_def split: option.splits)

text \<open>
  Claim C10. When \<open>transmit\<close> is called while the remote IP or the remote port is unset,
  the transmitting flag is set all the same and nothing is sent on the pipe. After that,
  whatever sequence of \<open>setparticipantoffer\<close>, \<open>transmit\<close> and \<open>stop\<close> calls follows, the
  remote IP and port keep the values they had, the flag stays set, and the only messages
  that reach the worker are the stop requests: it never receives a remote address.
\<close>

theorem receive_only_forever:
  assumes "remoteip m = None \<or> remoteport m = None"
  shows "transmitting (transmit m) \<and> pipe (transmit m) = pipe m
     \<and> remoteip (do_calls (transmit m) cs) = remoteip m
     \<and> remoteport (do_calls (transmit m) cs) = remoteport m
     \<and> transmitting (do_calls (transmit m) cs)
     \<and> pipe (do_calls (transmit m) cs)
         = pipe m @ replicate (length (filter (\<lambda>c. c = Stop) cs)) None"
  using transmit_unset[OF assms] do_calls_transmitting[of "transmit m" cs] by simp

theorem receive_only_forever_witness:
  "(remoteip fresh_media = None \<or> remoteport fresh_media = None)
   \<and> remoteip (do_calls (transmit fresh_media)
        [SetParticipantOffer ''c=IN IP4 10.0.0.2'', Transmit, Stop]) = None
   \<and> remoteport (do_calls (transmit fresh_media)
        [SetParticipantOffer ''c=IN IP4 10.0.0.2'', Transmit, Stop]) = None
   \<and> pipe (do_calls (transmit fresh_media)
        [SetParticipantOffer ''c=IN IP4 10.0.0.2'', Transmit, Stop]) = [None]"
proof -
  have h: "remoteip fresh_media = None \<or> remoteport fresh_media = None"
    by (simp add: fresh_media_def)
  show ?thesis
    using h receive_only_forever
      [OF h, of "[SetParticipantOffer ''c=IN IP4 10.0.0.2'', Transmit, Stop]"]
    by (simp add: fresh_media_def)
qed

section \<open>Properties of the default advance\<close>

lemma advance_numsamples:
  "numsamples s = Some k \<Longrightarrow>
    \<exists>s'. advance (Suc n) s = Inr s' \<and> numsamples s' = Some k
      \<and> s_seq s' = (s_seq s + 1 + int n) mod 65535
      \<and> s_TS s' = (s_TS s + (1 + int n) * k) mod 4294967295"
proof (induction n arbitrary: s)
  case 0
  then show ?case by (simp add: nextparams_default_def bind_err_def Let_def)
next
  case (Suc n)
  let ?s1 = "s\<lparr>s_TS := (s_TS s + k) mod 4294967295, s_seq := (s_seq s + 1) mod 65535\<rparr>"
  have step: "nextparams_default s = Inr ?s1"
    using Suc.prems by (simp add: nextparams_default_def Let_def)
  have ns: "numsamples ?s1 = Some k" using Suc.prems by simp
  from Suc.IH[OF ns] obtain s' where
    a: "advance (Suc n) ?s1 = Inr s'" and b: "numsamples s' = Some k"
    and c: "s_seq s' = (s_seq ?s1 + 1 + int n) mod 65535"
    and d: "s_TS s' = (s_TS ?s1 + (1 + int n) * k) mod 4294967295" by blast
  have e: "advance (Suc (Suc n)) s = Inr s'"
    using step a by (simp add: bind_err_def)
  have "((s_seq s + 1) mod 65535 + (1 + int n)) mod 65535
          = (s_seq s + 1 + (1 + int n)) mod 65535"
    by (rule mod_add_left_eq)
  then have c': "s_seq s' = (s_seq s + 1 + int (Suc n)) mod 65535"
    using c by (simp add: add.assoc)
  have "((s_TS s + k) mod 4294967295 + (1 + int n) * k) mod 4294967295
          = (s_TS s + k + (1 + int n) * k) mod 4294967295"
    by (rule mod_add_left_eq)
  moreover have "s_TS s + k + (1 + int n) * k = s_TS s + (1 + int (Suc n)) * k"
    by (simp add: algebra_simps)
  ultimately have d': "s_TS s' = (s_TS s + (1 + int (Suc n)) * k) mod 4294967295"
    using d by simp
  show ?case using e b c' d' by blast
qed

lemma pcmu_stream_constructed:
  "RTPStream_init (Some 0) (Some 160)
     (no_kwargs\<lparr>kw_seq := Some 0, kw_SSRC := Some 0, kw_TS := Some 0\<rparr>) rnd = Inr pcmu_stream"
  by (simp add: RTPStream_init_def no_kwargs_def pcmu_stream_def codec_of_PT_def
      defaultcodecs_def derive_numsamples_def split_on_def getitem_def py_int_def strip_def
      is_space_def is_digit_def digit_val_def py_trunc_def Let_def)

text \<open>
  Claim C2 (what the code does instead). The default \<open>nextparams\<close> reduces modulo
  \<open>0xffff = 65535\<close> and \<open>0xffffffff = 4294967295\<close>, not modulo \<open>2^16\<close> and \<open>2^32\<close>: after
  exactly 65536 default advances the sequence number is the original one plus 1 modulo
  65535, and the timestamp has advanced by \<open>65536 * numsamples\<close> modulo 4294967295. So a
  stream that starts at sequence number 0 is at 1 after 65536 advances, not back at 0.
\<close>

theorem default_advance_modulus_65535:
  assumes "numsamples s = Some k"
  shows "\<exists>s'. advance 65536 s = Inr s'
           \<and> s_seq s' = (s_seq s + 1) mod 65535
           \<and> s_TS s' = (s_TS s + 65536 * k) mod 4294967295"
proof -
  have n: "Suc 65535 = 65536" by simp
  from advance_numsamples[OF assms, of 65535] obtain s' where
    a: "advance (Suc 65535) s = Inr s'"
    and c: "s_seq s' = (s_seq s + 1 + int 65535) mod 65535"
    and d: "s_TS s' = (s_TS s + (1 + int 65535) * k) mod 4294967295" by blast
  have "advance 65536 s = Inr s'" using a by (simp only: n)
  moreover have "(s_seq s + 1 + 65535) mod 65535 = (s_seq s + 1) mod 65535"
    by (rule mod_add_self2)
  then have "s_seq s' = (s_seq s + 1) mod 65535" using c by simp
  moreover have "s_TS s' = (s_TS s + 65536 * k) mod 4294967295" using d by simp
  ultimately show ?thesis by blast
qed

theorem default_advance_modulus_65535_witness:
  "numsamples pcmu_stream = Some 160 \<and> s_seq pcmu_stream = 0
   \<and> (\<exists>s'. advance 65536 pcmu_stream = Inr s' \<and> s_seq s' = 1 \<and> s_TS s' = 10485760)"
proof -
  have h: "numsamples pcmu_stream = Some 160" by (simp add: pcmu_stream_def)
  show ?thesis
    using h default_advance_modulus_65535[OF h] by (simp add: pcmu_stream_def)
qed

section \<open>Properties of the random stream\<close>

lemma RTPStream_init_fields:
  "RTPStream_init (Some pt) (Some rl) kw rnd = Inr s \<Longrightarrow>
     rtplen s = Some rl \<and> s_PT s = Some pt \<and> numsamples s \<noteq> None"
  by (auto simp: RTPStream_init_def Let_def split: option.splits)

lemma RTPRandomStream_init_ready:
  "RTPRandomStream_init pt rl kw rnd = Inr s \<Longrightarrow> yields_len rl s"
  using RTPStream_init_fields[of pt rl kw rnd]
  by (auto simp: RTPRandomStream_init_def yields_len_def split: sum.splits)

lemma nextpacket_random:
  assumes "yields_len n s"
  shows "\<exists>rtp d s1. nextpacket lit rnd s = Inr (rtp, d, s1)
           \<and> length (payload rtp) = nat n \<and> yields_len n s1"
  using assms
  by (auto simp: yields_len_def nextpacket_def nextpayload_def nextparams_def
      nextparams_default_def bind_err_def RTP_init_def Let_def)

lemma nextpackets_random:
  "yields_len n s \<Longrightarrow>
     \<exists>rs. nextpackets lit rnds s = Inr rs \<and> length rs = length rnds
       \<and> list_all (\<lambda>(rtp, d, s1). length (payload rtp) = nat n \<and> \<not> eof s1) rs"
proof (induction rnds arbitrary: s)
  case Nil
  then show ?case by simp
next
  case (Cons rnd rnds)
  from nextpacket_random[OF Cons.prems, of lit rnd] obtain rtp d s1 where
    a: "nextpacket lit rnd s = Inr (rtp, d, s1)" and b: "length (payload rtp) = nat n"
    and c: "yields_len n s1" by blast
  from Cons.IH[OF c] obtain rs where
    d: "nextpackets lit rnds s1 = Inr rs" and e: "length rs = length rnds"
    and g: "list_all (\<lambda>(rtp, d, s1). length (payload rtp) = nat n \<and> \<not> eof s1) rs" by blast
  have "nextpackets lit (rnd # rnds) s = Inr ((rtp, d, s1) # rs)"
    using a d by (simp add: bind_err_def)
  moreover have "\<not> eof s1" using c by (simp add: yields_len_def)
  ultimately show ?case using b e g by simp
qed

lemma l16_stream_constructed:
  "RTPRandomStream_init 10 40 no_kwargs \<lparr>rand_seq = 7, rand_SSRC = 9, rand_TS = 11\<rparr>
     = Inr l16_stream"
  by (simp add: RTPRandomStream_init_def RTPStream_init_def no_kwargs_def codec_of_PT_def
      defaultcodecs_def derive_numsamples_def split_on_def getitem_def py_int_def strip_def
      is_space_def is_digit_def digit_val_def py_trunc_def Let_def l16_stream_def)

text \<open>
  Claim C9. A stream that \<open>RTPRandomStream\<close> constructed with length 40 has \<open>eof\<close> false,
  and any number of successive \<open>nextpacket\<close> calls on it all return (20 calls return 20
  packets), each with a payload of exactly 40 bytes and each leaving \<open>eof\<close> false, whatever
  bytes the random generator supplies.
\<close>

theorem random_stream_40:
  assumes "RTPRandomStream_init pt 40 kw draw = Inr s"
  shows "\<not> eof s \<and>
     (\<exists>rs. nextpackets lit rnds s = Inr rs \<and> length rs = length rnds
        \<and> list_all (\<lambda>(rtp, d, s1). length (payload rtp) = 40 \<and> \<not> eof s1) rs)"
proof -
  have r: "yields_len 40 s" using assms by (rule RTPRandomStream_init_ready)
  then have "\<not> eof s" by (simp add: yields_len_def)
  then show ?thesis using nextpackets_random[OF r, of lit rnds] by simp
qed

theorem random_stream_40_witness:
  "RTPRandomStream_init 10 40 no_kwargs \<lparr>rand_seq = 7, rand_SSRC = 9, rand_TS = 11\<rparr>
     = Inr l16_stream
   \<and> (\<exists>rs. nextpackets literal_eval (replicate 20 (\<lambda>i. CHR 0x00)) l16_stream = Inr rs
        \<and> length rs = 20
        \<and> list_all (\<lambda>(rtp, d, s1). length (payload rtp) = 40 \<and> \<not> eof s1) rs)"
proof -
  have h: "RTPRandomStream_init 10 40 no_kwargs \<lparr>rand_seq = 7, rand_SSRC = 9, rand_TS = 11\<rparr>
             = Inr l16_stream"
    by (rule l16_stream_constructed)
  show ?thesis
    using h random_stream_40[OF h, of literal_eval "replicate 20 (\<lambda>i. CHR 0x00)"]
    by simp
qed

section \<open>Properties of the sending loop\<close>













section \<open>Properties of the replay stream\<close>

text \<open>
  Claim C4 (what the code does instead). No \<open>RTPFile\<close> is ever constructed: the first
  statement of \<open>RTPFile.__init__\<close> calls \<open>RTPStream.__init__(self)\<close> without the required
  arguments \<open>PT\<close> and \<open>rtplen\<close>, so the constructor raises \<open>TypeError\<close> on the self-test's
  replay file, as on every other input, before a single byte is read. No packet with
  sequence number \<open>0x100\<close> is emitted.
\<close>

theorem RTPFile_init_raises:
  "RTPFile_init lit path main_fixture draw = Inl TypeError"
  by (simp add: RTPFile_init_def RTPStream_init_def)

text \<open>
  What \<open>nextparams\<close> and \<open>nextpacket\<close> do with the same file on an object that has the
  attributes of a stream: four packets, the fourth with payload \<open>def\<close>; end of file is
  noticed while the fourth call looks for the next directive block.
\<close>

lemma main_fixture_replay:
  "bind_err (bind_err (nextparams_File literal_eval (replaying main_fixture))
                      (nextpackets literal_eval (replicate 4 (\<lambda>i. CHR 0x00))))
            (\<lambda>rs. Inr (map (\<lambda>(rtp, d, s). (seq rtp, payload rtp, eof s)) rs))
     = Inr [(0x100, ''0123'', False), (0x101, ''4567'', False), (0x103, ''abc'', False),
            (0x104, ''def'', True)]"
  by code_simp

text \<open>
  Claim C6 (what the code does instead). A directive block that gives the timestamp
  under the key \<open>timestamp\<close> does not set the stream's timestamp: the code tests for the
  key \<open>timestamp\<close> and then pops the key \<open>TS\<close>, which such a block does not have, so
  \<open>nextparams\<close> raises \<open>KeyError\<close> although an explicit timestamp, a sample count and a
  sampling rate in the codec name are all available.
\<close>

theorem timestamp_directive_raises:
  "nextparams_File literal_eval (replaying ''timestamp=5\<newline><<<<'') = Inl (KeyError ''TS'')"
  by code_simp

text \<open>
  Under the key \<open>TS\<close> the value does reach the stream, through the final
  \<open>self.__dict__.update(params)\<close>, after the timestamp has been advanced by \<open>numsamples\<close>.
\<close>

lemma TS_directive_sets:
  "nextparams_File literal_eval (replaying ''TS=5\<newline><<<<'')
     = Inr ((replaying [])\<lparr>s_seq := 257, s_TS := 5\<rparr>)"
  by code_simp

section \<open>Encoding and decoding a packet\<close>

lemma or_low:
  fixes a b :: int
  assumes "0 \<le> b" "b < 2 ^ n"
  shows "push_bit n a OR b = push_bit n a + b"
proof -
  have b: "take_bit n b = b" using assms by (simp add: take_bit_int_eq_self)
  have "push_bit n a AND take_bit n b = 0"
    by (rule bit_eqI) (auto simp add: bit_simps)
  then show ?thesis using b by (simp add: disjunctive_add_eq_or)
qed

lemma hdr0_sum:
  fixes v p x c :: int
  assumes "0 \<le> p" "p < 2" "0 \<le> x" "x < 2" "0 \<le> c" "c < 16"
  shows "push_bit 6 v OR push_bit 5 p OR push_bit 4 x OR c = 64 * v + 32 * p + 16 * x + c"
proof -
  have 1: "push_bit 4 x OR c = 16 * x + c"
    using or_low[of c 4 x] assms by (simp add: push_bit_eq_mult)
  have 2: "push_bit 5 p OR (16 * x + c) = 32 * p + (16 * x + c)"
    using or_low[of "16 * x + c" 5 p] assms by (simp add: push_bit_eq_mult)
  have 3: "push_bit 6 v OR (32 * p + (16 * x + c)) = 64 * v + (32 * p + (16 * x + c))"
    using or_low[of "32 * p + (16 * x + c)" 6 v] assms by (simp add: push_bit_eq_mult)
  show ?thesis by (simp only: 1 2 3 add.assoc)
qed

lemma hdr1_sum:
  fixes m t :: int
  assumes "0 \<le> t" "t < 128"
  shows "push_bit 7 m OR t = 128 * m + t"
  using or_low[of t 7 m] assms by (simp add: push_bit_eq_mult)

lemma div_lin:
  fixes k r n :: int
  assumes "0 \<le> r" "r < n"
  shows "(n * k + r) div n = k" and "(n * k + r) mod n = r"
  using assms by simp_all

lemma hdr0_fields:
  fixes v p x c :: int
  assumes "0 \<le> v" "v < 4" "0 \<le> p" "p < 2" "0 \<le> x" "x < 2" "0 \<le> c" "c < 16"
    and h: "h = 64 * v + 32 * p + 16 * x + c"
    and sb: "sb = (if h < 128 then h else h - 256)"
  shows "0 \<le> h \<and> h < 256 \<and> sb div 64 = (if v < 2 then v else v - 4)
     \<and> sb div 32 mod 2 = p \<and> sb div 16 mod 2 = x \<and> sb mod 16 = c"
proof -
  define v' where "v' = (if v < 2 then v else v - 4)"
  have lt: "h < 128 \<longleftrightarrow> v < 2" using assms(1-8) h by arith
  have s64: "sb = 64 * v' + (32 * p + 16 * x + c)"
    using lt sb h by (simp add: v'_def)
  have s32: "sb = 32 * (2 * v' + p) + (16 * x + c)" using s64 by simp
  have s16: "sb = 16 * (4 * v' + 2 * p + x) + c" using s64 by simp
  have a: "sb div 64 = v'"
    unfolding s64 using assms(3-8) by (intro div_lin) arith+
  have b: "sb div 32 = 2 * v' + p"
    unfolding s32 using assms(5-8) by (intro div_lin) arith+
  have c: "sb div 16 = 4 * v' + 2 * p + x"
    unfolding s16 using assms(7,8) by (intro div_lin) arith+
  have d: "sb mod 16 = c"
    unfolding s16 using assms(7,8) by (intro div_lin) arith+
  have b': "(2 * v' + p) mod 2 = p" using div_lin(2)[of p 2 v'] assms(3,4) by simp
  have c': "(4 * v' + 2 * p + x) mod 2 = x"
    using div_lin(2)[of x 2 "2 * v' + p"] assms(5,6) by (simp add: algebra_simps)
  have "0 \<le> h \<and> h < 256" using assms(1-8) h by arith
  then show ?thesis using a b c d b' c' by (simp add: v'_def)
qed

lemma hdr1_fields:
  fixes m t :: int
  assumes "0 \<le> m" "m < 2" "0 \<le> t" "t < 128"
    and "h = 128 * m + t"
    and "sb = (if h < 128 then h else h - 256)"
  shows "0 \<le> h \<and> h < 256 \<and> sb div 128 = - m \<and> sb mod 128 = t"
proof -
  have m: "m = 0 \<or> m = 1" using assms by arith
  show ?thesis using m assms(3-6) by (elim disjE; simp; arith)
qed

lemma unpack_pack_H: "0 \<le> v \<Longrightarrow> v < 65536 \<Longrightarrow> unpack_H (char_of (v div 256)) (char_of v) = v"
  by (simp add: unpack_H_def)


lemma unpack_pack_L:
  assumes "0 \<le> v" "v < 4294967296"
  shows "unpack_L (char_of (v div 16777216)) (char_of (v div 65536)) (char_of (v div 256))
           (char_of v) = v"
proof -
  define a where "a = v div 256"
  define b where "b = a div 256"
  define c where "c = b div 256"
  have b2: "v div 65536 = b"
    using zdiv_zmult2_eq[of 256 v 256] by (simp add: a_def b_def)
  have c2: "v div 16777216 = c"
    using zdiv_zmult2_eq[of 256 "v div 256" 256] zdiv_zmult2_eq[of 65536 v 256]
    by (simp add: a_def b_def c_def)
  have c0: "0 \<le> c" using assms by (simp add: a_def b_def c_def)
  have "c < 256" using assms c2 by auto
  then have cm: "c mod 256 = c" using c0 by simp
  have v: "v = a * 256 + v mod 256" by (simp add: a_def)
  have a: "a = b * 256 + a mod 256" by (simp add: b_def)
  have b: "b = c * 256 + b mod 256" by (simp add: c_def)
  have "unpack_L (char_of c) (char_of b) (char_of a) (char_of v)
          = ((c mod 256 * 256 + b mod 256) * 256 + a mod 256) * 256 + v mod 256"
    by (simp add: unpack_L_def)
  also have "\<dots> = ((c * 256 + b mod 256) * 256 + a mod 256) * 256 + v mod 256"
    by (simp only: cm)
  also have "\<dots> = (b * 256 + a mod 256) * 256 + v mod 256" using b by simp
  also have "\<dots> = a * 256 + v mod 256" using a by simp
  also have "\<dots> = v" using v by simp
  finally show ?thesis by (simp only: b2 c2 a_def[symmetric])
qed


lemma frombytes_header:
  "frombytes ([c0, c1] @ pack_H s @ pack_L t @ pack_L r @ pl) =
     Inr \<lparr> payload = pl,
           PT = unpack_b c1 mod 128,
           seq = unpack_H (char_of (s div 256)) (char_of s),
           TS = unpack_L (char_of (t div 16777216)) (char_of (t div 65536))
                  (char_of (t div 256)) (char_of t),
           SSRC = unpack_L (char_of (r div 16777216)) (char_of (r div 65536))
                  (char_of (r div 256)) (char_of r),
           version = unpack_b c0 div 64,
           P = unpack_b c0 div 32 mod 2,
           X = unpack_b c0 div 16 mod 2,
           CC = unpack_b c0 mod 16,
           M = unpack_b c1 div 128 \<rparr>"
  by (simp add: frombytes_def unpack_from_bbHLL_def pack_H_def pack_L_def and_15 and_127
      and_one_eq drop_bit_eq_div)


text \<open>
  Claim C1 (what the code does instead). For every packet whose fields are within their
  bit widths, \<open>tobytes\<close> succeeds and \<open>frombytes\<close> of the result returns the payload and
  the fields P, X, CC, PT, seq, TS and SSRC unchanged, but not always version and marker:
  \<open>frombytes\<close> unpacks bytes 0 and 1 as signed chars, so a version of 2 or 3 comes back
  as \<open>- 2\<close> or \<open>- 1\<close>, and a marker of 1 comes back as \<open>- 1\<close>. The default version is 2,
  so no packet built with the defaults survives the round trip.
\<close>

theorem roundtrip_sign_extends:
  assumes "valid_RTP p"
  shows "\<exists>buf. tobytes p = Inr buf
     \<and> frombytes buf
         = Inr (p\<lparr>version := (if version p < 2 then version p else version p - 4),
                  M := - M p\<rparr>)"
proof -
  define h0 where "h0 = 64 * version p + 32 * P p + 16 * X p + CC p"
  define h1 where "h1 = 128 * M p + PT p"
  define sb0 where "sb0 = (if h0 < 128 then h0 else h0 - 256)"
  define sb1 where "sb1 = (if h1 < 128 then h1 else h1 - 256)"
  have v: "0 \<le> version p" "version p < 4" "0 \<le> P p" "P p < 2" "0 \<le> X p" "X p < 2"
    "0 \<le> CC p" "CC p < 16" "0 \<le> M p" "M p < 2" "0 \<le> PT p" "PT p < 128"
    "0 \<le> seq p" "seq p < 65536" "0 \<le> TS p" "TS p < 4294967296"
    "0 \<le> SSRC p" "SSRC p < 4294967296"
    using assms by (simp_all add: valid_RTP_def)
  have e0: "push_bit 6 (version p) OR push_bit 5 (P p) OR push_bit 4 (X p) OR CC p = h0"
    unfolding h0_def using v(3-8) by (rule hdr0_sum)
  have e1: "push_bit 7 (M p) OR PT p = h1"
    unfolding h1_def using v(11,12) by (rule hdr1_sum)
  note f0 = hdr0_fields[OF v(1-8) h0_def sb0_def]
  note f1 = hdr1_fields[OF v(9-12) h1_def sb1_def]
  have tb: "tobytes p = Inr ([char_of h0, char_of h1] @ pack_H (seq p) @ pack_L (TS p)
                   @ pack_L (SSRC p) @ payload p)"
    using f0 f1 v(13-18) by (simp add: tobytes_def e0 e1 Let_def)
  have u0: "unpack_b (char_of h0) = sb0"
    using f0 by (simp add: unpack_b_def sb0_def)
  have u1: "unpack_b (char_of h1) = sb1"
    using f1 by (simp add: unpack_b_def sb1_def)
  have "frombytes ([char_of h0, char_of h1] @ pack_H (seq p) @ pack_L (TS p)
                   @ pack_L (SSRC p) @ payload p)
        = Inr (p\<lparr>version := (if version p < 2 then version p else version p - 4),
                  M := - M p\<rparr>)"
  proof -
    have g0: "sb0 div 64 = (if version p < 2 then version p else version p - 4)"
      "sb0 div 32 mod 2 = P p" "sb0 div 16 mod 2 = X p" "sb0 mod 16 = CC p"
      using f0 by blast+
    have g1: "sb1 div 128 = - M p" "sb1 mod 128 = PT p" using f1 by blast+
    show ?thesis
      by (simp only: frombytes_header u0 u1 g0 g1 unpack_pack_H[OF v(13,14)]
            unpack_pack_L[OF v(15,16)] unpack_pack_L[OF v(17,18)])
         (cases p, simp)
  qed
  then show ?thesis using tb by simp
qed


theorem roundtrip_sign_extends_witness:
  "valid_RTP (RTP_init ''ab'' 0 0 0 0) \<and> version (RTP_init ''ab'' 0 0 0 0) = 2
   \<and> (\<exists>buf. tobytes (RTP_init ''ab'' 0 0 0 0) = Inr buf
          \<and> frombytes buf = Inr ((RTP_init ''ab'' 0 0 0 0)\<lparr>version := - 2\<rparr>))"
proof -
  have h: "valid_RTP (RTP_init ''ab'' 0 0 0 0)"
    by (simp add: valid_RTP_def RTP_init_def)
  show ?thesis
    using h roundtrip_sign_extends[OF h] by (simp add: RTP_init_def)
qed

section \<open>Properties of the SDP answer scan\<close>

lemma c_not_m: "startswith l ''c='' \<Longrightarrow> \<not> startswith l ''m=''"
  by (auto simp: startswith_def)

lemma offer_line_ok:
  assumes "\<not> malformed l"
  shows "offer_line m l =
     (m\<lparr>remoteip := (if startswith l ''c='' then Some (split l ! 2) else remoteip m),
        remoteport := (if startswith l ''m='' then py_int (split l ! 1) else remoteport m)\<rparr>,
      None)"
  using assms c_not_m[of l]
  by (auto simp: malformed_def offer_line_def getitem_def split: sum.splits option.splits)

lemma offer_line_bad:
  assumes "malformed l"
  shows "offer_line m l = (m, Some (error_of l))"
  using assms c_not_m[of l]
  by (auto simp: malformed_def offer_line_def getitem_def error_of_def
      split: sum.splits option.splits if_splits)

lemma offered_ip_Cons:
  "offered_ip old (l # ls)
     = offered_ip (if startswith l ''c='' then Some (split l ! 2) else old) ls"
  by (cases "filter (\<lambda>l. startswith l ''c='') ls") (simp_all add: offered_ip_def)

lemma offered_port_Cons:
  "\<not> malformed l \<Longrightarrow> offered_port old (l # ls)
     = offered_port (if startswith l ''m='' then py_int (split l ! 1) else old) ls"
  by (cases "filter (\<lambda>l. startswith l ''m='') ls") (simp_all add: offered_port_def)

lemma offer_lines_result:
  "offer_lines m lines =
     (m\<lparr>remoteip := offered_ip (remoteip m) (takeWhile (\<lambda>l. \<not> malformed l) lines),
        remoteport := offered_port (remoteport m) (takeWhile (\<lambda>l. \<not> malformed l) lines)\<rparr>,
      first_error lines)"
proof (induction lines arbitrary: m)
  case Nil
  then show ?case by (simp add: offered_ip_def offered_port_def first_error_def)
next
  case (Cons l ls)
  show ?case
  proof (cases "malformed l")
    case True
    then show ?thesis
      by (simp add: offer_line_bad offered_ip_def offered_port_def first_error_def)
  next
    case False
    have fe: "first_error (l # ls) = first_error ls" using False by (simp add: first_error_def)
    show ?thesis
      using False
      by (simp add: offer_line_ok Cons.IH offered_ip_Cons offered_port_Cons fe)
  qed
qed

lemma first_error_None:
  "first_error lines = None \<longleftrightarrow> \<not> list_ex malformed lines"
proof (induction lines)
  case Nil
  then show ?case by (simp add: first_error_def)
next
  case (Cons l ls)
  then show ?case by (cases "malformed l") (simp_all add: first_error_def)
qed

lemma takeWhile_all_wellformed:
  "\<not> list_ex malformed lines \<Longrightarrow> takeWhile (\<lambda>l. \<not> malformed l) lines = lines"
  by (induction lines) simp_all

text \<open>
  Claim C5, as stated, fails: on an answer whose \<open>c=\<close> line has fewer than three tokens
  \<open>setparticipantoffer\<close> raises \<open>IndexError\<close>.
\<close>

theorem setparticipantoffer_raises:
  "setparticipantoffer fresh_media ''c=IN IP4'' = (fresh_media, Some IndexError)"
  by code_simp

text \<open>
  Claim C5, amended. \<open>setparticipantoffer\<close> does nothing when the endpoint is
  transmitting. Otherwise it scans the lines in order: a \<open>c=\<close> line with at least three
  whitespace tokens sets the remote IP to the third token, an \<open>m=\<close> line with at least
  two tokens of which the second is an integer sets the remote port to it, and a line
  with neither prefix is ignored. The call returns normally exactly when no \<open>c=\<close> line
  has fewer than three tokens and every \<open>m=\<close> line has an integer second token, and
  then the remote IP and port are those of the last \<open>c=\<close> and the last \<open>m=\<close> line (or
  unchanged when there is none). At the first line that is malformed in this sense the
  call stops with \<open>IndexError\<close> (too few tokens) or \<open>ValueError\<close> (no integer), and the
  endpoint keeps what the lines before it have set.
\<close>

theorem setparticipantoffer_amended:
  "setparticipantoffer m sdp =
     (if transmitting m then (m, None)
      else (m\<lparr>remoteip :=
                offered_ip (remoteip m) (takeWhile (\<lambda>l. \<not> malformed l) (splitlines sdp)),
              remoteport :=
                offered_port (remoteport m) (takeWhile (\<lambda>l. \<not> malformed l) (splitlines sdp))\<rparr>,
            first_error (splitlines sdp)))
   \<and> (first_error (splitlines sdp) = None \<longleftrightarrow> \<not> list_ex malformed (splitlines sdp))
   \<and> (\<not> list_ex malformed (splitlines sdp) \<longrightarrow>
        takeWhile (\<lambda>l. \<not> malformed l) (splitlines sdp) = splitlines sdp)"
  by (simp add: setparticipantoffer_def offer_lines_result first_error_None
      takeWhile_all_wellformed)

theorem setparticipantoffer_amended_witness:
  "\<not> transmitting fresh_media \<and> \<not> list_ex malformed (splitlines main_sdp)
   \<and> setparticipantoffer fresh_media main_sdp
       = (fresh_media\<lparr>remoteip := Some ''127.0.0.1'', remoteport := Some 12345\<rparr>, None)"
proof -
  have a: "\<not> list_ex malformed (splitlines main_sdp)" by code_simp
  have b: "offered_ip None (splitlines main_sdp) = Some ''127.0.0.1''" by code_simp
  have c: "offered_port None (splitlines main_sdp) = Some 12345" by code_simp
  note t = setparticipantoffer_amended[of fresh_media main_sdp]
  have tw: "takeWhile (\<lambda>l. \<not> malformed l) (splitlines main_sdp) = splitlines main_sdp"
    using t a by blast
  have fe: "first_error (splitlines main_sdp) = None" using t a by blast
  have nt: "\<not> transmitting fresh_media" by (simp add: fresh_media_def)
  have "setparticipantoffer fresh_media main_sdp
          = (fresh_media\<lparr>remoteip := offered_ip (remoteip fresh_media) (splitlines main_sdp),
               remoteport := offered_port (remoteport fresh_media) (splitlines main_sdp)\<rparr>,
             None)"
    using t nt by (simp only: tw fe if_False)
  then show ?thesis using a b c nt by (simp add: fresh_media_def)
qed

end
